theory Spec2Isabelle
  imports Complex_Main "HOL-Library.Word"
begin

section \<open>JavaScript values reaching the analysis route\<close>

text \<open>
  The route handler of \<^verbatim>\<open>src/app/api/analyze/route.ts\<close> receives the result of
  \<^verbatim>\<open>request.json()\<close>, typed \<^verbatim>\<open>unknown\<close>. The values that can occur are the
  JSON values (null, booleans, numbers, strings, arrays, objects) and \<^verbatim>\<open>undefined\<close>,
  which a read of a missing property yields.

  A string is a sequence of UTF-16 code units. A number is an IEEE double: a finite
  value, one of the two infinities, or NaN. Finite doubles are represented by the real
  number they denote, so the two zeros coincide (they are equal under \<^verbatim>\<open>===\<close> as
  well); \<^verbatim>\<open>JSON.parse\<close> yields an infinity for a literal such as \<^verbatim>\<open>1e999\<close>.
\<close>

type_synonym jsstring = "16 word list"

abbreviation (input) js :: "string \<Rightarrow> jsstring" where
  "js s \<equiv> map of_char s"

datatype number = Finite real | PosInfinity | NegInfinity | NaN

datatype jsval =
    JUndefined
  | JNull
  | JBool bool
  | JNum number
  | JStr jsstring
  | JArr "jsval list"
  | JObj "(jsstring \<times> jsval) list"

text \<open>\<^verbatim>\<open>Number.isFinite\<close> on a value already known to be a number.\<close>

fun Number_isFinite :: "number \<Rightarrow> bool" where
  "Number_isFinite (Finite x) = True"
| "Number_isFinite PosInfinity = False"
| "Number_isFinite NegInfinity = False"
| "Number_isFinite NaN = False"

text \<open>The \<^verbatim>\<open>typeof\<close> operator; \<^verbatim>\<open>typeof null\<close> and \<^verbatim>\<open>typeof []\<close> are both \<^verbatim>\<open>"object"\<close>.\<close>

fun typeof :: "jsval \<Rightarrow> string" where
  "typeof JUndefined = ''undefined''"
| "typeof JNull = ''object''"
| "typeof (JBool b) = ''boolean''"
| "typeof (JNum n) = ''number''"
| "typeof (JStr s) = ''string''"
| "typeof (JArr vs) = ''object''"
| "typeof (JObj kvs) = ''object''"

text \<open>Truthiness (\<^verbatim>\<open>ToBoolean\<close>), as used by \<^verbatim>\<open>!raw\<close>.\<close>

fun truthy :: "jsval \<Rightarrow> bool" where
  "truthy JUndefined = False"
| "truthy JNull = False"
| "truthy (JBool b) = b"
| "truthy (JNum (Finite x)) = (x \<noteq> 0)"
| "truthy (JNum NaN) = False"
| "truthy (JNum PosInfinity) = True"
| "truthy (JNum NegInfinity) = True"
| "truthy (JStr s) = (s \<noteq> [])"
| "truthy (JArr vs) = True"
| "truthy (JObj kvs) = True"

text \<open>
  Reading a property of a value that is neither null nor undefined. An object built by
  \<^verbatim>\<open>JSON.parse\<close> keeps the last of several equal keys. The handler reads only the
  names \<^verbatim>\<open>periods\<close>, \<^verbatim>\<open>assumptions\<close>, \<^verbatim>\<open>label\<close>, the eight numeric fields of a period
  and the four fields of the assumptions; none of them is defined on a prototype, so on
  arrays and primitives the read gives \<^verbatim>\<open>undefined\<close>.
\<close>

fun getProp :: "jsval \<Rightarrow> jsstring \<Rightarrow> jsval" where
  "getProp (JObj kvs) k = (case map_of (rev kvs) k of Some v \<Rightarrow> v | None \<Rightarrow> JUndefined)"
| "getProp v k = JUndefined"

subsection \<open>The built-ins \<^verbatim>\<open>String.prototype.trim\<close> and \<^verbatim>\<open>parseFloat\<close>\<close>

text \<open>White space and line terminators of ECMAScript, as code units.\<close>

definition isWhiteSpace :: "16 word \<Rightarrow> bool" where
  "isWhiteSpace c \<longleftrightarrow>
     c \<in> {0x0009, 0x000A, 0x000B, 0x000C, 0x000D, 0x0020, 0x00A0, 0x1680,
          0x2028, 0x2029, 0x202F, 0x205F, 0x3000, 0xFEFF}
     \<or> (0x2000 \<le> c \<and> c \<le> 0x200A)"

definition trim :: "jsstring \<Rightarrow> jsstring" where
  "trim s = rev (dropWhile isWhiteSpace (rev (dropWhile isWhiteSpace s)))"

definition isDigit :: "16 word \<Rightarrow> bool" where
  "isDigit c \<longleftrightarrow> 0x30 \<le> c \<and> c \<le> 0x39"

text \<open>The value of a run of decimal digits, most significant first.\<close>

definition digitsValue :: "jsstring \<Rightarrow> nat" where
  "digitsValue ds = foldl (\<lambda>acc c. 10 * acc + (unat c - 48)) 0 ds"

text \<open>
  Rounding a mathematical value to a double. A magnitude of at least
  \<open>2 ^ 1024 - 2 ^ 970\<close> rounds to an infinity; below it the result is finite, and the
  value is kept as it is (the loss of precision of the nearest double is not
  represented).
\<close>

definition toDouble :: "real \<Rightarrow> number" where
  "toDouble x =
     (if 2 ^ 1024 - 2 ^ 970 \<le> x then PosInfinity
      else if x \<le> - (2 ^ 1024 - 2 ^ 970) then NegInfinity
      else Finite x)"

text \<open>An optional sign in front of a literal: whether it is negative, and the rest.\<close>

fun signPrefix :: "jsstring \<Rightarrow> bool \<times> jsstring" where
  "signPrefix [] = (False, [])"
| "signPrefix (c # r) =
     (if c = 0x2B then (False, r) else if c = 0x2D then (True, r) else (False, c # r))"

text \<open>
  The exponent part at the head of a string, \<^verbatim>\<open>e\<close> or \<^verbatim>\<open>E\<close>, an optional sign and at
  least one digit; 0 when there is none.
\<close>

fun exponentPart :: "jsstring \<Rightarrow> int" where
  "exponentPart [] = 0"
| "exponentPart (c # r) =
     (if c = 0x65 \<or> c = 0x45 then
        (let (neg, d) = signPrefix r; ds = takeWhile isDigit d
         in if ds = [] then 0
            else if neg then - int (digitsValue ds) else int (digitsValue ds))
      else 0)"

text \<open>
  \<^verbatim>\<open>parseFloat\<close> of a string: leading white space is skipped, the longest prefix that
  is a decimal literal (sign, then \<^verbatim>\<open>Infinity\<close> or digits with an optional fraction and
  exponent) is read and the rest is ignored; NaN when there is no such prefix.
\<close>

definition parseFloat :: "jsstring \<Rightarrow> number" where
  "parseFloat s =
     (let (neg, u) = signPrefix (dropWhile isWhiteSpace s) in
      if take 8 u = js ''Infinity'' then (if neg then NegInfinity else PosInfinity)
      else
        let ip = takeWhile isDigit u;
            r1 = dropWhile isDigit u;
            fp = (case r1 of [] \<Rightarrow> [] | c # r \<Rightarrow> if c = 0x2E then takeWhile isDigit r else []);
            r2 = (case r1 of [] \<Rightarrow> [] | c # r \<Rightarrow> if c = 0x2E then dropWhile isDigit r else r1)
        in if ip = [] \<and> fp = [] then NaN
           else
             let e = exponentPart r2 - int (length fp);
                 m = real (digitsValue (ip @ fp));
                 v = (if 0 \<le> e then m * 10 ^ nat e else m / 10 ^ nat (- e))
             in toDouble (if neg then - v else v))"

section \<open>Sanitizing the raw payload\<close>

record FinancialPeriod =
  label :: jsstring
  revenue :: number
  cogs :: number
  operatingExpenses :: number
  netIncome :: number
  assets :: number
  liabilities :: number
  cash :: number
  freeCashFlow :: number

record ScenarioAssumptions =
  revenueGrowth :: number
  marginShift :: number
  efficiencyGain :: number
  cashConversion :: number

fun sanitizeNumber :: "jsval \<Rightarrow> number" where
  "sanitizeNumber (JNum n) = (if Number_isFinite n then n else Finite 0)"
| "sanitizeNumber (JStr s) =
     (let parsed = parseFloat s in if Number_isFinite parsed then parsed else Finite 0)"
| "sanitizeNumber v = Finite 0"

text \<open>
  The function mapped over the raw array: \<^verbatim>\<open>null\<close> for an entry that is not an
  object, a period otherwise.
\<close>

definition normalizeRow :: "jsval \<Rightarrow> FinancialPeriod option" where
  "normalizeRow row =
     (if typeof row \<noteq> ''object'' \<or> row = JNull then None
      else
        let label = getProp row (js ''label'') in
        Some \<lparr> label =
                 (case label of
                    JStr l \<Rightarrow> if length (trim l) \<noteq> 0 then l else js ''Period''
                  | _ \<Rightarrow> js ''Period''),
               revenue = sanitizeNumber (getProp row (js ''revenue'')),
               cogs = sanitizeNumber (getProp row (js ''cogs'')),
               operatingExpenses = sanitizeNumber (getProp row (js ''operatingExpenses'')),
               netIncome = sanitizeNumber (getProp row (js ''netIncome'')),
               assets = sanitizeNumber (getProp row (js ''assets'')),
               liabilities = sanitizeNumber (getProp row (js ''liabilities'')),
               cash = sanitizeNumber (getProp row (js ''cash'')),
               freeCashFlow = sanitizeNumber (getProp row (js ''freeCashFlow'')) \<rparr>)"

text \<open>
  \<^verbatim>\<open>raw.map(...).filter(Boolean)\<close>: every period object is truthy, so the filter
  removes exactly the \<^verbatim>\<open>null\<close> results.
\<close>

fun Array_isArray :: "jsval \<Rightarrow> bool" where
  "Array_isArray (JArr vs) = True"
| "Array_isArray v = False"

fun elements :: "jsval \<Rightarrow> jsval list" where
  "elements (JArr vs) = vs"
| "elements v = []"

definition normalizePeriods :: "jsval \<Rightarrow> FinancialPeriod list" where
  "normalizePeriods raw =
     (if \<not> Array_isArray raw then []
      else map the (filter (\<lambda>r. r \<noteq> None) (map normalizeRow (elements raw))))"

definition normalizeAssumptions :: "jsval \<Rightarrow> ScenarioAssumptions" where
  "normalizeAssumptions raw =
     (if \<not> truthy raw \<or> typeof raw \<noteq> ''object'' then
        \<lparr> revenueGrowth = Finite 0, marginShift = Finite 0,
          efficiencyGain = Finite 0, cashConversion = Finite 0 \<rparr>
      else
        \<lparr> revenueGrowth = sanitizeNumber (getProp raw (js ''revenueGrowth'')),
          marginShift = sanitizeNumber (getProp raw (js ''marginShift'')),
          efficiencyGain = sanitizeNumber (getProp raw (js ''efficiencyGain'')),
          cashConversion = sanitizeNumber (getProp raw (js ''cashConversion'')) \<rparr>)"

section \<open>The request handler\<close>

text \<open>
  An exception is a value. \<^verbatim>\<open>request.json()\<close> rejects with a \<^verbatim>\<open>SyntaxError\<close> on a body
  that is not JSON, reading a property of \<^verbatim>\<open>null\<close> throws a \<^verbatim>\<open>TypeError\<close>, and the
  analysis engine, which lives in another module, may throw anything.
\<close>

datatype exn = SyntaxError string | TypeError string | OtherError string

record Request =
  request_json :: "exn + jsval"

datatype 'a ResponseBody = DataBody 'a | ErrorBody jsstring

record 'a Response =
  status :: nat
  json_body :: "'a ResponseBody"

text \<open>The effects of a call that a caller can observe besides the response.\<close>

datatype event =
    RunAnalysis "FinancialPeriod list" ScenarioAssumptions
  | ConsoleError jsstring exn

fun isRunAnalysis :: "event \<Rightarrow> bool" where
  "isRunAnalysis (RunAnalysis ps a) = True"
| "isRunAnalysis (ConsoleError m e) = False"

text \<open>The member access \<^verbatim>\<open>body.periods\<close> on a value of any kind.\<close>

definition getMember :: "jsval \<Rightarrow> jsstring \<Rightarrow> exn + jsval" where
  "getMember v k =
     (if v = JNull \<or> v = JUndefined
      then Inl (TypeError ''Cannot read properties of null or undefined'')
      else Inr (getProp v k))"

text \<open>\<^verbatim>\<open>NextResponse.json(body, {status})\<close>; the status is 200 when none is given.\<close>

definition NextResponse_json :: "'a ResponseBody \<Rightarrow> nat option \<Rightarrow> 'a Response" where
  "NextResponse_json b st = \<lparr> status = (case st of None \<Rightarrow> 200 | Some n \<Rightarrow> n), json_body = b \<rparr>"

text \<open>
  The body of the \<^verbatim>\<open>try\<close> block. The engine \<^verbatim>\<open>runAnalysis\<close> is imported from
  \<^verbatim>\<open>@/lib/analysis\<close> and is a parameter here; it returns a result or throws. The first
  component of the result lists the effects in order.
\<close>

definition POST_try ::
  "(FinancialPeriod list \<Rightarrow> ScenarioAssumptions \<Rightarrow> exn + 'a) \<Rightarrow> Request
     \<Rightarrow> event list \<times> (exn + 'a Response)" where
  "POST_try runAnalysis request =
     (case request_json request of
        Inl e \<Rightarrow> ([], Inl e)
      | Inr body \<Rightarrow>
          (case getMember body (js ''periods'') of
             Inl e \<Rightarrow> ([], Inl e)
           | Inr rawPeriods \<Rightarrow>
               let periods = normalizePeriods rawPeriods in
               (case getMember body (js ''assumptions'') of
                  Inl e \<Rightarrow> ([], Inl e)
                | Inr rawAssumptions \<Rightarrow>
                    let assumptions = normalizeAssumptions rawAssumptions in
                    if length periods = 0 then
                      ([], Inr (NextResponse_json
                                  (ErrorBody (js ''No financial periods supplied.'')) (Some 400)))
                    else
                      (case runAnalysis periods assumptions of
                         Inl e \<Rightarrow> ([RunAnalysis periods assumptions], Inl e)
                       | Inr analysis \<Rightarrow>
                           ([RunAnalysis periods assumptions],
                            Inr (NextResponse_json (DataBody analysis) None))))))"

text \<open>The handler: the \<^verbatim>\<open>try\<close> block and its \<^verbatim>\<open>catch\<close> clause.\<close>

definition POST ::
  "(FinancialPeriod list \<Rightarrow> ScenarioAssumptions \<Rightarrow> exn + 'a) \<Rightarrow> Request
     \<Rightarrow> event list \<times> (exn + 'a Response)" where
  "POST runAnalysis request =
     (case POST_try runAnalysis request of
        (evs, Inr response) \<Rightarrow> (evs, Inr response)
      | (evs, Inl error) \<Rightarrow>
          (evs @ [ConsoleError (js ''Analysis error'') error],
           Inr (NextResponse_json
                  (ErrorBody (js ''Unable to evaluate financials.'')) (Some 500))))"

section \<open>The analysis engine\<close>

text \<open>
  The engine \<^verbatim>\<open>runAnalysis\<close> is imported from \<^verbatim>\<open>@/lib/analysis\<close>; this section
  follows its description in the specification. Its arithmetic is on real numbers: the
  input contract gives it finite fields, every division is guarded, and the overflow of
  a double is outside this description.
\<close>

text \<open>
  Modelled from the spec: the engine of \<^verbatim>\<open>@/lib/analysis\<close> reads the fields of a
  period as finite reals (section 3). The value of a finite number; the input contract
  excludes the others.
\<close>

fun num :: "number \<Rightarrow> real" where
  "num (Finite x) = x"
| "num n = 0"

text \<open>Modelled from the spec: clamping to a closed interval, used throughout section 4.\<close>

definition clamp :: "real \<Rightarrow> real \<Rightarrow> real \<Rightarrow> real" where
  "clamp lo hi x = min hi (max lo x)"

text \<open>Modelled from the spec: the trailing metrics of section 3.\<close>

record TrailingMetrics =
  cagr :: real
  netMargin :: real
  burnMultiple :: real
  leverageRatio :: real
  liquidityRatio :: real
  growthVelocity :: real

text \<open>
  Modelled from the spec: one projected year of section 3, \<^verbatim>\<open>{year, revenue, netIncome,
  freeCashFlow}\<close>; the last three fields carry the prefix \<open>projected\<close> here, the
  year is its ordinal.
\<close>

record ScenarioYear =
  year :: nat
  projectedRevenue :: real
  projectedNetIncome :: real
  projectedFreeCashFlow :: real

text \<open>Modelled from the spec: the five health scores of section 3.\<close>

record HealthScores =
  overall :: real
  growth :: real
  profitability :: real
  liquidity :: real
  efficiency :: real

text \<open>
  Modelled from the spec: the five warnings of section 4.4. The specification fixes the
  rules and not the wording, so a signal is named by its rule.
\<close>

datatype RiskSignal =
    NegativeProfitability
  | OverLeverage
  | ShortCashRunway
  | InefficientGrowthSpend
  | WorseningCashTrajectory

text \<open>Modelled from the spec: the four scored categories, in catalog order (section 4.5).\<close>

datatype Category = Growth | Profitability | Liquidity | Efficiency

text \<open>Modelled from the spec: the three tiers of the overall score (section 4.5).\<close>

datatype NarrativeTier = LowTier | MidTier | HighTier

text \<open>Modelled from the spec: a recommendation section \<^verbatim>\<open>{title, highlight, bullets}\<close>.\<close>

record Recommendation =
  title :: string
  highlight :: string
  bullets :: "string list"

text \<open>
  Modelled from the spec: the narrative templates and the recommendation catalog of
  section 4.5. Their wording is not part of the specification; both are parameters of
  the engine.
\<close>

record Templates =
  narrativeTemplate :: "NarrativeTier \<Rightarrow> TrailingMetrics \<Rightarrow> string"
  catalog :: "Category \<Rightarrow> Recommendation"

text \<open>
  Modelled from the spec: the result record of section 3. Which of the metrics it
  exposes is left open there; all six are kept.
\<close>

record AnalysisResult =
  metrics :: TrailingMetrics
  scenario :: "ScenarioYear list"
  healthScores :: HealthScores
  riskSignals :: "RiskSignal list"
  narrative :: string
  recommendations :: "Recommendation list"

subsection \<open>Metrics calculator\<close>

text \<open>
  Modelled from the spec: the metrics calculator of \<^verbatim>\<open>@/lib/analysis\<close>, section 4.1.
  Compound growth between the first and the last period, 0 unless there are two
  periods and both revenues are positive.
\<close>

definition computeCagr :: "FinancialPeriod list \<Rightarrow> real" where
  "computeCagr ps =
     (let n = length ps; first = num (revenue (hd ps)); final = num (revenue (last ps))
      in if 2 \<le> n \<and> 0 < first \<and> 0 < final
         then (final / first) powr (1 / real (n - 1)) - 1 else 0)"

text \<open>
  Modelled from the spec: section 4.1, the average of net income over revenue across
  the periods whose revenue is not 0; 0 if there is none.
\<close>

definition computeNetMargin :: "FinancialPeriod list \<Rightarrow> real" where
  "computeNetMargin ps =
     (let qs = filter (\<lambda>p. num (revenue p) \<noteq> 0) ps
      in if qs = [] then 0
         else sum_list (map (\<lambda>p. num (netIncome p) / num (revenue p)) qs) / real (length qs))"

text \<open>
  Modelled from the spec: section 4.1, total burn over new revenue, the latter at
  least 1, clamped to [0, 50].
\<close>

definition computeBurnMultiple :: "FinancialPeriod list \<Rightarrow> real" where
  "computeBurnMultiple ps =
     (let totalBurn = sum_list (map (\<lambda>p. max 0 (- num (freeCashFlow p))) ps);
          totalNewRevenue = max 1 (num (revenue (last ps)) - num (revenue (hd ps)))
      in clamp 0 50 (totalBurn / totalNewRevenue))"

text \<open>
  Modelled from the spec: section 4.1, liabilities over assets of the last period when
  the assets are positive, clamped to [0, 5].
\<close>

definition computeLeverageRatio :: "FinancialPeriod list \<Rightarrow> real" where
  "computeLeverageRatio ps =
     (let final = last ps
      in clamp 0 5 (if 0 < num (assets final)
                    then num (liabilities final) / num (assets final) else 0))"

text \<open>
  Modelled from the spec: section 4.1, cash of the last period over the average monthly
  operating expense, the latter at least 1, clamped to [0, 60].
\<close>

definition computeLiquidityRatio :: "FinancialPeriod list \<Rightarrow> real" where
  "computeLiquidityRatio ps =
     (let averageOpex = sum_list (map (\<lambda>p. num (operatingExpenses p)) ps) / real (length ps)
      in clamp 0 60 (num (cash (last ps)) / max 1 (averageOpex / 12)))"

text \<open>
  Modelled from the spec: section 4.1, the mean growth rate of revenue over consecutive
  pairs of periods; 0 with fewer than two periods or when a denominator is 0.
\<close>

definition computeGrowthVelocity :: "FinancialPeriod list \<Rightarrow> real" where
  "computeGrowthVelocity ps =
     (let pairs = zip ps (tl ps)
      in if length ps < 2 \<or> list_ex (\<lambda>(a, b). num (revenue a) = 0) pairs then 0
         else sum_list (map (\<lambda>(a, b). (num (revenue b) - num (revenue a)) / num (revenue a))
                          pairs) / real (length pairs))"

text \<open>Modelled from the spec: the six trailing metrics of section 4.1 together.\<close>

definition computeMetrics :: "FinancialPeriod list \<Rightarrow> TrailingMetrics" where
  "computeMetrics ps =
     \<lparr> cagr = computeCagr ps,
       netMargin = computeNetMargin ps,
       burnMultiple = computeBurnMultiple ps,
       leverageRatio = computeLeverageRatio ps,
       liquidityRatio = computeLiquidityRatio ps,
       growthVelocity = computeGrowthVelocity ps \<rparr>"

subsection \<open>Scenario projector\<close>

text \<open>
  Modelled from the spec: the scenario projector of \<^verbatim>\<open>@/lib/analysis\<close>, section 4.2.
  Revenue compounds from the last period at the effective growth rate over the years
  1, 2 and 3; net income and free cash flow are revenue times a ratio clamped to
  [-1, 1].
\<close>

definition projectScenario ::
  "FinancialPeriod \<Rightarrow> TrailingMetrics \<Rightarrow> ScenarioAssumptions \<Rightarrow> ScenarioYear list" where
  "projectScenario final m a =
     (let growthRate = growthVelocity m + num (revenueGrowth a) / 100;
          margin = clamp (- 1) 1 (netMargin m + num (marginShift a) / 100);
          baseRatio = (if num (revenue final) = 0 then 0
                       else num (freeCashFlow final) / num (revenue final));
          fcfRatio = clamp (- 1) 1
                       (baseRatio + (num (efficiencyGain a) + num (cashConversion a)) / 100)
      in map (\<lambda>t. let r = num (revenue final) * (1 + growthRate) ^ t
                  in \<lparr> year = t, projectedRevenue = r,
                       projectedNetIncome = r * margin,
                       projectedFreeCashFlow = r * fcfRatio \<rparr>)
           [1, 2, 3])"

subsection \<open>Health scorer\<close>

text \<open>
  Modelled from the spec: section 4.3, the linear map that sends the reference point
  \<open>bad\<close> to 0 and \<open>good\<close> to 100, clamped to [0, 100].
\<close>

definition linearScore :: "real \<Rightarrow> real \<Rightarrow> real \<Rightarrow> real" where
  "linearScore bad good x = clamp 0 100 (100 * (x - bad) / (good - bad))"

text \<open>
  Modelled from the spec: the health scorer of \<^verbatim>\<open>@/lib/analysis\<close>, section 4.3, with
  the reference points and weights given there.
\<close>

definition computeHealthScores :: "TrailingMetrics \<Rightarrow> HealthScores" where
  "computeHealthScores m =
     (let g = linearScore (- 0.10) 0.40 (cagr m);
          p = linearScore (- 0.20) 0.25 (netMargin m);
          l = linearScore 1 18 (liquidityRatio m);
          e = linearScore 4 0.5 (burnMultiple m)
      in \<lparr> overall = clamp 0 100 (real_of_int (round (0.3 * g + 0.3 * p + 0.2 * l + 0.2 * e))),
           growth = g, profitability = p, liquidity = l, efficiency = e \<rparr>)"

subsection \<open>Risk signal detector\<close>

text \<open>
  Modelled from the spec: the risk signal detector of \<^verbatim>\<open>@/lib/analysis\<close>, section 4.4.
  Five rules in a fixed order, each adding its signal when it holds.
\<close>

definition detectRiskSignals :: "TrailingMetrics \<Rightarrow> FinancialPeriod list \<Rightarrow> RiskSignal list" where
  "detectRiskSignals m ps =
     (if netMargin m < 0 then [NegativeProfitability] else [])
     @ (if 0.7 < leverageRatio m then [OverLeverage] else [])
     @ (if liquidityRatio m < 3 then [ShortCashRunway] else [])
     @ (if 2 < burnMultiple m then [InefficientGrowthSpend] else [])
     @ (if 2 \<le> length ps
           \<and> num (freeCashFlow (last (butlast ps))) < 0
           \<and> num (freeCashFlow (last ps)) < 0
           \<and> num (freeCashFlow (last ps)) < num (freeCashFlow (last (butlast ps)))
        then [WorseningCashTrajectory] else [])"

subsection \<open>Narrative composer\<close>

text \<open>Modelled from the spec: section 4.5, the score of a category.\<close>

fun categoryScore :: "HealthScores \<Rightarrow> Category \<Rightarrow> real" where
  "categoryScore h Growth = growth h"
| "categoryScore h Profitability = profitability h"
| "categoryScore h Liquidity = liquidity h"
| "categoryScore h Efficiency = efficiency h"

text \<open>
  Modelled from the spec: section 4.5, the tier of the overall score that selects the
  narrative template: below 40, from 40 to 70, above 70.
\<close>

definition narrativeTier :: "real \<Rightarrow> NarrativeTier" where
  "narrativeTier s = (if s < 40 then LowTier else if s \<le> 70 then MidTier else HighTier)"

text \<open>
  Modelled from the spec: section 4.5, the three lowest-scoring categories, equal
  scores in catalog order (the sort is stable), each giving its catalog section.
\<close>

definition composeRecommendations :: "Templates \<Rightarrow> HealthScores \<Rightarrow> Recommendation list" where
  "composeRecommendations tpl h =
     map (catalog tpl)
       (take 3 (sort_key (categoryScore h) [Growth, Profitability, Liquidity, Efficiency]))"

subsection \<open>The pipeline\<close>

text \<open>
  Modelled from the spec: \<^verbatim>\<open>runAnalysis\<close> of \<^verbatim>\<open>@/lib/analysis\<close>, the pipeline of
  section 2: metrics first, then projection, scores and signals, then the narrative.
\<close>

definition runAnalysis ::
  "Templates \<Rightarrow> FinancialPeriod list \<Rightarrow> ScenarioAssumptions \<Rightarrow> AnalysisResult" where
  "runAnalysis tpl ps a =
     (let m = computeMetrics ps;
          h = computeHealthScores m
      in \<lparr> metrics = m,
           scenario = projectScenario (last ps) m a,
           healthScores = h,
           riskSignals = detectRiskSignals m ps,
           narrative = narrativeTemplate tpl (narrativeTier (overall h)) m,
           recommendations = composeRecommendations tpl h \<rparr>)"

section \<open>Predicates used to state the properties\<close>

text \<open>An object in the sense of the handler's test: \<^verbatim>\<open>typeof\<close> is \<^verbatim>\<open>"object"\<close> and not null.\<close>

definition isObject :: "jsval \<Rightarrow> bool" where
  "isObject v \<longleftrightarrow> typeof v = ''object'' \<and> v \<noteq> JNull"

text \<open>A raw value that is a finite number, or a string that parses to one.\<close>

fun numericRaw :: "jsval \<Rightarrow> bool" where
  "numericRaw (JNum n) = Number_isFinite n"
| "numericRaw (JStr s) = Number_isFinite (parseFloat s)"
| "numericRaw v = False"

text \<open>The numeric fields of a period and of the assumptions, by name.\<close>

definition periodFields :: "(string \<times> (FinancialPeriod \<Rightarrow> number)) list" where
  "periodFields =
     [(''revenue'', revenue), (''cogs'', cogs), (''operatingExpenses'', operatingExpenses),
      (''netIncome'', netIncome), (''assets'', assets), (''liabilities'', liabilities),
      (''cash'', cash), (''freeCashFlow'', freeCashFlow)]"

definition assumptionFields :: "(string \<times> (ScenarioAssumptions \<Rightarrow> number)) list" where
  "assumptionFields =
     [(''revenueGrowth'', revenueGrowth), (''marginShift'', marginShift),
      (''efficiencyGain'', efficiencyGain), (''cashConversion'', cashConversion)]"

text \<open>
  Modelled from the spec: the input contract of the engine \<^verbatim>\<open>@/lib/analysis\<close>,
  section 6: a non-empty label and finite numeric fields.
\<close>

definition sanitizedPeriod :: "FinancialPeriod \<Rightarrow> bool" where
  "sanitizedPeriod p \<longleftrightarrow>
     label p \<noteq> [] \<and> list_all (\<lambda>(name, field). Number_isFinite (field p)) periodFields"

text \<open>
  Modelled from the spec: the input contract of the engine \<^verbatim>\<open>@/lib/analysis\<close>,
  section 6: four finite fields.
\<close>

definition sanitizedAssumptions :: "ScenarioAssumptions \<Rightarrow> bool" where
  "sanitizedAssumptions a \<longleftrightarrow>
     list_all (\<lambda>(name, field). Number_isFinite (field a)) assumptionFields"

section \<open>Properties of the sanitization and of the handler\<close>

subsection \<open>Basic facts\<close>

lemma sanitizeNumber_finite: "Number_isFinite (sanitizeNumber v)"
  by (cases v) (simp_all add: Let_def)

lemma sanitizeNumber_default: "\<not> numericRaw v \<Longrightarrow> sanitizeNumber v = Finite 0"
  by (cases v) (simp_all add: Let_def)

lemma normalizeRow_None_iff: "normalizeRow row = None \<longleftrightarrow> \<not> isObject row"
  by (simp add: normalizeRow_def isObject_def Let_def)

lemma normalizePeriods_map:
  "normalizePeriods (JArr rows) = map (the \<circ> normalizeRow) (filter isObject rows)"
proof -
  have "filter (\<lambda>r. r \<noteq> None) (map normalizeRow rows) = map normalizeRow (filter isObject rows)"
    by (induction rows) (simp_all add: normalizeRow_None_iff)
  then show ?thesis
    by (simp add: normalizePeriods_def)
qed

lemma normalizePeriods_not_array: "\<not> Array_isArray raw \<Longrightarrow> normalizePeriods raw = []"
  by (simp add: normalizePeriods_def)

lemma normalizePeriods_no_objects:
  "\<forall>row\<in>set rows. \<not> isObject row \<Longrightarrow> normalizePeriods (JArr rows) = []"
  by (simp add: normalizePeriods_map filter_empty_conv)

lemma normalizePeriods_mem:
  assumes "p \<in> set (normalizePeriods raw)"
  obtains row where "isObject row" and "normalizeRow row = Some p"
proof -
  from assms obtain rows where raw: "raw = JArr rows"
    by (cases raw) (simp_all add: normalizePeriods_def)
  with assms obtain row where "row \<in> set rows" "isObject row" "p = the (normalizeRow row)"
    by (auto simp: normalizePeriods_map)
  moreover from this have "normalizeRow row \<noteq> None"
    by (simp add: normalizeRow_None_iff)
  ultimately show thesis
    using that by auto
qed

lemma trim_empty_iff: "trim s = [] \<longleftrightarrow> (\<forall>c\<in>set s. isWhiteSpace c)"
proof
  assume "trim s = []"
  then have "\<forall>c\<in>set (dropWhile isWhiteSpace s). isWhiteSpace c"
    by (simp add: trim_def)
  then have "dropWhile isWhiteSpace s = []"
    by (metis hd_dropWhile hd_in_set)
  then show "\<forall>c\<in>set s. isWhiteSpace c"
    by simp
next
  assume "\<forall>c\<in>set s. isWhiteSpace c"
  then show "trim s = []"
    by (auto simp: trim_def dest: set_dropWhileD)
qed

lemma normalizeRow_fields:
  assumes "normalizeRow row = Some p" and "(name, field) \<in> set periodFields"
  shows "field p = sanitizeNumber (getProp row (js name))"
  using assms by (auto simp: normalizeRow_def periodFields_def Let_def split: if_splits)

lemma normalizeRow_label:
  assumes "normalizeRow row = Some p"
  shows "label p = (case getProp row (js ''label'') of
                      JStr l \<Rightarrow> if \<forall>c\<in>set l. isWhiteSpace c then js ''Period'' else l
                    | _ \<Rightarrow> js ''Period'')"
  using assms by (auto simp: normalizeRow_def Let_def trim_empty_iff split: if_splits jsval.splits)

lemma normalizeAssumptions_fields:
  assumes "(name, field) \<in> set assumptionFields"
  shows "field (normalizeAssumptions raw) =
           (if \<not> truthy raw \<or> typeof raw \<noteq> ''object'' then Finite 0
            else sanitizeNumber (getProp raw (js name)))"
  using assms by (auto simp: normalizeAssumptions_def assumptionFields_def)

lemma contract_periods: "list_all sanitizedPeriod (normalizePeriods raw)"
proof -
  have "sanitizedPeriod p" if "p \<in> set (normalizePeriods raw)" for p
  proof -
    from that obtain row where row: "normalizeRow row = Some p"
      by (rule normalizePeriods_mem)
    have "label p \<noteq> []"
      using normalizeRow_label [OF row] by (auto split: jsval.splits if_splits)
    moreover have "Number_isFinite (field p)" if "(name, field) \<in> set periodFields" for name field
      using normalizeRow_fields [OF row that] by (simp add: sanitizeNumber_finite)
    ultimately show ?thesis
      by (auto simp: sanitizedPeriod_def list_all_iff)
  qed
  then show ?thesis
    by (simp add: list_all_iff)
qed

lemma contract_assumptions: "sanitizedAssumptions (normalizeAssumptions raw)"
proof -
  have "Number_isFinite (field (normalizeAssumptions raw))"
    if "(name, field) \<in> set assumptionFields" for name field
    using normalizeAssumptions_fields [OF that, of raw] by (simp add: sanitizeNumber_finite)
  then show ?thesis
    by (auto simp: sanitizedAssumptions_def list_all_iff)
qed

lemma parseFloat_150: "parseFloat (js ''150'') = Finite 150"
  by (simp add: parseFloat_def isDigit_def isWhiteSpace_def digitsValue_def toDouble_def)

lemma parseFloat_12abc: "parseFloat (js ''12abc'') = Finite 12"
  by (simp add: parseFloat_def isDigit_def isWhiteSpace_def digitsValue_def toDouble_def)

lemma parseFloat_abc: "parseFloat (js ''abc'') = NaN"
  by (simp add: parseFloat_def isDigit_def isWhiteSpace_def)

lemma parseFloat_2_5: "parseFloat (js '' -2.5e1kg'') = Finite (- 25)"
  by (simp add: parseFloat_def isDigit_def isWhiteSpace_def digitsValue_def toDouble_def)

subsection \<open>Numbers\<close>

text \<open>
  Claim C8. On a string whose \<open>parseFloat\<close> is finite, \<open>sanitizeNumber\<close> returns that
  parsed number and not the default: \<^verbatim>\<open>"150"\<close> gives 150 and \<^verbatim>\<open>"12abc"\<close> gives 12.
\<close>

theorem sanitizeNumber_numeric_string:
  "(\<forall>s. Number_isFinite (parseFloat s) \<longrightarrow> sanitizeNumber (JStr s) = parseFloat s)
   \<and> sanitizeNumber (JStr (js ''150'')) = Finite 150
   \<and> sanitizeNumber (JStr (js ''12abc'')) = Finite 12"
  by (simp add: Let_def parseFloat_150 parseFloat_12abc del: list.map)

theorem sanitizeNumber_numeric_string_witness: "sanitizeNumber (JStr (js '' -2.5e1kg'')) = Finite (- 25)"
  using sanitizeNumber_numeric_string [THEN conjunct1, rule_format, of "js '' -2.5e1kg''"]
  by (simp only: parseFloat_2_5 Number_isFinite.simps)

text \<open>
  Claim C1. Whatever the raw value, each of the eight numeric fields of each period
  that \<open>normalizePeriods\<close> produces is a finite number. The period at position \<open>i\<close>
  comes from the \<open>i\<close>-th object entry of the raw array, and a field of it is 0 whenever
  the raw field of that entry is absent (reads as \<^verbatim>\<open>undefined\<close>) or is neither a finite
  number nor a string that \<open>parseFloat\<close> turns into one.
\<close>

theorem normalizePeriods_numeric_fields_sanitized:
  "(\<forall>p\<in>set (normalizePeriods raw). \<forall>(name, field)\<in>set periodFields. Number_isFinite (field p))
   \<and> (\<forall>rows i. raw = JArr rows \<and> i < length (filter isObject rows) \<longrightarrow>
         (\<forall>(name, field)\<in>set periodFields.
            (let value = getProp (filter isObject rows ! i) (js name)
             in value = JUndefined \<or> \<not> numericRaw value) \<longrightarrow>
            field (normalizePeriods raw ! i) = Finite 0))"
proof (intro conjI ballI allI impI)
  fix p x
  assume p: "p \<in> set (normalizePeriods raw)" and x: "x \<in> set periodFields"
  obtain name field where nf: "x = (name, field)"
    by (cases x)
  from p obtain row where "normalizeRow row = Some p"
    by (rule normalizePeriods_mem)
  with x nf have "field p = sanitizeNumber (getProp row (js name))"
    by (simp add: normalizeRow_fields)
  then show "case x of (name, field) \<Rightarrow> Number_isFinite (field p)"
    by (simp add: nf sanitizeNumber_finite)
next
  fix rows i x
  assume ri: "raw = JArr rows \<and> i < length (filter isObject rows)"
    and x: "x \<in> set periodFields"
  obtain name field where nf: "x = (name, field)"
    by (cases x)
  let ?row = "filter isObject rows ! i"
  from ri have "?row \<in> set (filter isObject rows)"
    by (simp only: nth_mem)
  then have "isObject ?row"
    by simp
  then obtain p where row: "normalizeRow ?row = Some p"
    using normalizeRow_None_iff [of ?row] by auto
  from ri have p: "normalizePeriods raw ! i = p"
    by (simp add: normalizePeriods_map row)
  from row x nf have f: "field p = sanitizeNumber (getProp ?row (js name))"
    by (simp add: normalizeRow_fields)
  show "case x of (name, field) \<Rightarrow>
          (let value = getProp ?row (js name) in value = JUndefined \<or> \<not> numericRaw value) \<longrightarrow>
          field (normalizePeriods raw ! i) = Finite 0"
    using f p by (auto simp: nf Let_def sanitizeNumber_default)
qed

theorem normalizePeriods_numeric_fields_sanitized_witness:
  "Number_isFinite
     (cash (normalizePeriods
              (JArr [JNull, JObj [(js ''revenue'', JStr (js ''abc'')),
                                  (js ''cogs'', JNum PosInfinity)]]) ! 0))
   \<and> revenue (normalizePeriods
                (JArr [JNull, JObj [(js ''revenue'', JStr (js ''abc'')),
                                    (js ''cogs'', JNum PosInfinity)]]) ! 0) = Finite 0
   \<and> cogs (normalizePeriods
             (JArr [JNull, JObj [(js ''revenue'', JStr (js ''abc'')),
                                 (js ''cogs'', JNum PosInfinity)]]) ! 0) = Finite 0
   \<and> assets (normalizePeriods
               (JArr [JNull, JObj [(js ''revenue'', JStr (js ''abc'')),
                                   (js ''cogs'', JNum PosInfinity)]]) ! 0) = Finite 0"
proof -
  let ?row = "JObj [(js ''revenue'', JStr (js ''abc'')), (js ''cogs'', JNum PosInfinity)]"
  let ?raw = "JArr [JNull, ?row]"
  note finite = normalizePeriods_numeric_fields_sanitized [of ?raw, THEN conjunct1, rule_format, of "normalizePeriods ?raw ! 0"]
  note default = normalizePeriods_numeric_fields_sanitized [of ?raw, THEN conjunct2, rule_format, of "[JNull, ?row]" 0]
  have "normalizePeriods ?raw ! 0 \<in> set (normalizePeriods ?raw)"
    by (simp add: normalizePeriods_map isObject_def)
  then have "Number_isFinite (cash (normalizePeriods ?raw ! 0))"
    using finite [of "(''cash'', cash)"] by (simp add: periodFields_def)
  moreover have "revenue (normalizePeriods ?raw ! 0) = Finite 0"
    using default [of "(''revenue'', revenue)"]
    by (simp add: periodFields_def isObject_def parseFloat_abc [simplified])
  moreover have "cogs (normalizePeriods ?raw ! 0) = Finite 0"
    using default [of "(''cogs'', cogs)"]
    by (simp add: periodFields_def isObject_def)
  moreover have "assets (normalizePeriods ?raw ! 0) = Finite 0"
    using default [of "(''assets'', assets)"]
    by (simp add: periodFields_def isObject_def)
  ultimately show ?thesis
    by (simp only: simp_thms)
qed

text \<open>
  Claim C4. Whatever the raw value, the four fields of \<open>normalizeAssumptions raw\<close> are
  finite numbers, and a field is 0 when the raw value is absent, null or not an
  object, or when the raw field is neither a finite number nor a string that parses to
  one.
\<close>

theorem normalizeAssumptions_sanitized:
  "(\<forall>(name, field)\<in>set assumptionFields. Number_isFinite (field (normalizeAssumptions raw)))
   \<and> (\<forall>(name, field)\<in>set assumptionFields.
         raw = JUndefined \<or> raw = JNull \<or> typeof raw \<noteq> ''object''
           \<or> \<not> numericRaw (getProp raw (js name)) \<longrightarrow>
         field (normalizeAssumptions raw) = Finite 0)"
proof (intro conjI ballI)
  fix x
  assume x: "x \<in> set assumptionFields"
  obtain name field where nf: "x = (name, field)"
    by (cases x)
  from x nf have "field (normalizeAssumptions raw) =
      (if \<not> truthy raw \<or> typeof raw \<noteq> ''object'' then Finite 0
       else sanitizeNumber (getProp raw (js name)))"
    by (simp add: normalizeAssumptions_fields)
  then show "case x of (name, field) \<Rightarrow> Number_isFinite (field (normalizeAssumptions raw))"
    by (simp add: nf sanitizeNumber_finite)
next
  fix x
  assume x: "x \<in> set assumptionFields"
  obtain name field where nf: "x = (name, field)"
    by (cases x)
  from x nf have "field (normalizeAssumptions raw) =
      (if \<not> truthy raw \<or> typeof raw \<noteq> ''object'' then Finite 0
       else sanitizeNumber (getProp raw (js name)))"
    by (simp add: normalizeAssumptions_fields)
  then show "case x of (name, field) \<Rightarrow>
      raw = JUndefined \<or> raw = JNull \<or> typeof raw \<noteq> ''object''
        \<or> \<not> numericRaw (getProp raw (js name)) \<longrightarrow>
      field (normalizeAssumptions raw) = Finite 0"
    by (auto simp: nf sanitizeNumber_default)
qed

theorem normalizeAssumptions_sanitized_witness:
  "Number_isFinite (revenueGrowth (normalizeAssumptions (JObj [(js ''marginShift'', JBool True)])))
   \<and> marginShift (normalizeAssumptions (JObj [(js ''marginShift'', JBool True)])) = Finite 0
   \<and> cashConversion (normalizeAssumptions (JObj [(js ''marginShift'', JBool True)])) = Finite 0"
  using normalizeAssumptions_sanitized [of "JObj [(js ''marginShift'', JBool True)]"]
  by (simp add: assumptionFields_def)

subsection \<open>Labels, order and dropped entries\<close>

text \<open>
  Claim C5. Every period that \<open>normalizePeriods\<close> produces has a non-empty label. The
  label of the period at position \<open>i\<close> is the label of the \<open>i\<close>-th object entry as it
  is when that label is a string with a character that is not white space, and the
  placeholder \<^verbatim>\<open>"Period"\<close> when it is missing, not a string, or made of white space
  only.
\<close>

theorem normalizePeriods_label_nonempty:
  "(\<forall>p\<in>set (normalizePeriods raw). label p \<noteq> [])
   \<and> (\<forall>rows i. raw = JArr rows \<and> i < length (filter isObject rows) \<longrightarrow>
         label (normalizePeriods raw ! i) =
           (case getProp (filter isObject rows ! i) (js ''label'') of
              JStr l \<Rightarrow> if \<forall>c\<in>set l. isWhiteSpace c then js ''Period'' else l
            | _ \<Rightarrow> js ''Period''))"
proof (intro conjI ballI allI impI)
  fix p
  assume "p \<in> set (normalizePeriods raw)"
  then obtain row where "normalizeRow row = Some p"
    by (rule normalizePeriods_mem)
  then have "label p = (case getProp row (js ''label'') of
                          JStr l \<Rightarrow> if \<forall>c\<in>set l. isWhiteSpace c then js ''Period'' else l
                        | _ \<Rightarrow> js ''Period'')"
    by (rule normalizeRow_label)
  then show "label p \<noteq> []"
    by (auto split: jsval.splits if_splits)
next
  fix rows i
  assume ri: "raw = JArr rows \<and> i < length (filter isObject rows)"
  let ?row = "filter isObject rows ! i"
  from ri have "?row \<in> set (filter isObject rows)"
    by (simp only: nth_mem)
  then have "isObject ?row"
    by simp
  then obtain p where row: "normalizeRow ?row = Some p"
    using normalizeRow_None_iff [of ?row] by auto
  from ri have "normalizePeriods raw ! i = p"
    by (simp add: normalizePeriods_map row)
  with normalizeRow_label [OF row]
  show "label (normalizePeriods raw ! i) =
           (case getProp ?row (js ''label'') of
              JStr l \<Rightarrow> if \<forall>c\<in>set l. isWhiteSpace c then js ''Period'' else l
            | _ \<Rightarrow> js ''Period'')"
    by simp
qed

theorem normalizePeriods_label_nonempty_witness:
  "label (normalizePeriods (JArr [JObj [(js ''label'', JStr (js ''  ''))],
                                  JObj [(js ''label'', JStr (js ''FY 24''))],
                                  JObj [(js ''label'', JNum (Finite 7))]]) ! 0) = js ''Period''
   \<and> label (normalizePeriods (JArr [JObj [(js ''label'', JStr (js ''  ''))],
                                  JObj [(js ''label'', JStr (js ''FY 24''))],
                                  JObj [(js ''label'', JNum (Finite 7))]]) ! 1) = js ''FY 24''
   \<and> label (normalizePeriods (JArr [JObj [(js ''label'', JStr (js ''  ''))],
                                  JObj [(js ''label'', JStr (js ''FY 24''))],
                                  JObj [(js ''label'', JNum (Finite 7))]]) ! 2) = js ''Period''
   \<and> label (normalizePeriods (JArr [JObj [(js ''label'', JStr (js ''  ''))],
                                  JObj [(js ''label'', JStr (js ''FY 24''))],
                                  JObj [(js ''label'', JNum (Finite 7))]]) ! 2) \<noteq> []"
proof -
  let ?rows = "[JObj [(js ''label'', JStr (js ''  ''))],
                JObj [(js ''label'', JStr (js ''FY 24''))],
                JObj [(js ''label'', JNum (Finite 7))]]"
  note nonempty = normalizePeriods_label_nonempty [of "JArr ?rows", THEN conjunct1, rule_format,
      of "normalizePeriods (JArr ?rows) ! 2"]
  note c = normalizePeriods_label_nonempty [of "JArr ?rows", THEN conjunct2, rule_format, of ?rows]
  have "normalizePeriods (JArr ?rows) ! 2 \<in> set (normalizePeriods (JArr ?rows))"
    by (simp add: normalizePeriods_map isObject_def)
  then have "label (normalizePeriods (JArr ?rows) ! 2) \<noteq> []"
    by (rule nonempty)
  then show ?thesis
    using c [of 0] c [of 1] c [of 2]
    by (simp add: isObject_def isWhiteSpace_def)
qed

text \<open>
  Claim C10. \<open>normalizePeriods\<close> on an array is the map of one function of the entry
  alone over the object entries of the array, in their order; that function yields a
  period on every object entry; so the result is as long as the array has object
  entries.
\<close>

theorem normalizePeriods_order_and_length:
  "normalizePeriods (JArr rows) = map (the \<circ> normalizeRow) (filter isObject rows)
   \<and> (\<forall>row. isObject row \<longrightarrow> (\<exists>p. normalizeRow row = Some p))
   \<and> length (normalizePeriods (JArr rows)) = length (filter isObject rows)"
  using normalizeRow_None_iff by (auto simp: normalizePeriods_map)

theorem normalizePeriods_order_and_length_witness:
  "(\<exists>p. normalizeRow (JObj [(js ''cash'', JNum (Finite 3))]) = Some p)
   \<and> length (normalizePeriods (JArr [JNull, JObj [(js ''cash'', JNum (Finite 3))], JBool True])) = 1"
proof -
  let ?row = "JObj [(js ''cash'', JNum (Finite 3))]"
  note c = normalizePeriods_order_and_length [of "[JNull, ?row, JBool True]"]
  have "\<exists>p. normalizeRow ?row = Some p"
    using c [THEN conjunct2, THEN conjunct1, rule_format, of ?row]
    by (simp add: isObject_def)
  moreover have "length (normalizePeriods (JArr [JNull, ?row, JBool True])) = 1"
    using c [THEN conjunct2, THEN conjunct2]
    by (simp add: isObject_def)
  ultimately show ?thesis
    by (simp only: simp_thms)
qed

subsection \<open>Responses\<close>

lemma POST_try_steps:
  assumes "request_json request = Inr body" and "getMember body (js ''periods'') = Inr rawPeriods"
  shows "POST_try ra request =
           (let periods = normalizePeriods rawPeriods;
                assumptions = normalizeAssumptions (getProp body (js ''assumptions''))
            in if periods = [] then
                 ([], Inr \<lparr> status = 400,
                            json_body = ErrorBody (js ''No financial periods supplied.'') \<rparr>)
               else (case ra periods assumptions of
                       Inl e \<Rightarrow> ([RunAnalysis periods assumptions], Inl e)
                     | Inr analysis \<Rightarrow>
                         ([RunAnalysis periods assumptions],
                          Inr \<lparr> status = 200, json_body = DataBody analysis \<rparr>)))"
proof -
  from assms(2) have "getMember body (js ''assumptions'') = Inr (getProp body (js ''assumptions''))"
    by (simp add: getMember_def split: if_splits del: list.map)
  with assms show ?thesis
    by (simp add: POST_try_def NextResponse_json_def Let_def split: sum.splits del: list.map)
qed

lemma POST_of_try_Inr: "POST_try ra request = (evs, Inr r) \<Longrightarrow> POST ra request = (evs, Inr r)"
  by (simp add: POST_def)

lemma POST_of_try_Inl:
  "POST_try ra request = (evs, Inl e) \<Longrightarrow>
   POST ra request =
     (evs @ [ConsoleError (js ''Analysis error'') e],
      Inr \<lparr> status = 500, json_body = ErrorBody (js ''Unable to evaluate financials.'') \<rparr>)"
  by (simp add: POST_def NextResponse_json_def del: list.map)

text \<open>
  Claim C2. For a request whose body parses and has a readable \<^verbatim>\<open>periods\<close> member:
  when the sanitized list of periods is empty, the handler answers with status 400 and
  a body \<^verbatim>\<open>{error: string}\<close>, with no effect at all, so the engine is not invoked; when
  the list is not empty and the engine returns a result, the handler answers with
  status 200 and the body \<^verbatim>\<open>{data: result}\<close>.
\<close>

theorem POST_empty_input_or_success:
  assumes "request_json request = Inr body"
    and "getMember body (js ''periods'') = Inr rawPeriods"
  shows "(normalizePeriods rawPeriods = [] \<longrightarrow>
            POST ra request =
              ([], Inr \<lparr> status = 400,
                         json_body = ErrorBody (js ''No financial periods supplied.'') \<rparr>)
            \<and> \<not> list_ex isRunAnalysis (fst (POST ra request)))
         \<and> (\<forall>analysis.
               normalizePeriods rawPeriods \<noteq> []
               \<and> ra (normalizePeriods rawPeriods)
                     (normalizeAssumptions (getProp body (js ''assumptions''))) = Inr analysis \<longrightarrow>
               snd (POST ra request) = Inr \<lparr> status = 200, json_body = DataBody analysis \<rparr>)"
proof (intro conjI impI allI)
  assume "normalizePeriods rawPeriods = []"
  with POST_try_steps [OF assms, of ra]
  have "POST_try ra request =
          ([], Inr \<lparr> status = 400,
                     json_body = ErrorBody (js ''No financial periods supplied.'') \<rparr>)"
    by (simp del: list.map)
  then show "POST ra request =
          ([], Inr \<lparr> status = 400,
                     json_body = ErrorBody (js ''No financial periods supplied.'') \<rparr>)"
    by (rule POST_of_try_Inr)
  then show "\<not> list_ex isRunAnalysis (fst (POST ra request))"
    by (simp del: list.map)
next
  fix analysis
  assume "normalizePeriods rawPeriods \<noteq> []
    \<and> ra (normalizePeriods rawPeriods)
          (normalizeAssumptions (getProp body (js ''assumptions''))) = Inr analysis"
  with POST_try_steps [OF assms, of ra]
  have "POST_try ra request =
          ([RunAnalysis (normalizePeriods rawPeriods)
              (normalizeAssumptions (getProp body (js ''assumptions'')))],
           Inr \<lparr> status = 200, json_body = DataBody analysis \<rparr>)"
    by (simp add: Let_def del: list.map)
  then have "POST ra request =
          ([RunAnalysis (normalizePeriods rawPeriods)
              (normalizeAssumptions (getProp body (js ''assumptions'')))],
           Inr \<lparr> status = 200, json_body = DataBody analysis \<rparr>)"
    by (rule POST_of_try_Inr)
  then show "snd (POST ra request) = Inr \<lparr> status = 200, json_body = DataBody analysis \<rparr>"
    by simp
qed

theorem POST_empty_input_or_success_witness:
  "POST (\<lambda>ps a. Inr (length ps))
     \<lparr> request_json = Inr (JObj [(js ''periods'', JArr [])]) \<rparr> =
     ([], Inr \<lparr> status = 400,
                json_body = ErrorBody (js ''No financial periods supplied.'') \<rparr>)
   \<and> snd (POST (\<lambda>ps a. Inr (length ps))
            \<lparr> request_json = Inr (JObj [(js ''periods'', JArr [JObj [], JNull, JArr []])]) \<rparr>) =
       Inr \<lparr> status = 200, json_body = DataBody (2::nat) \<rparr>"
proof -
  let ?ra = "\<lambda>(ps::FinancialPeriod list) (a::ScenarioAssumptions). (Inr (length ps) :: exn + nat)"
  let ?b1 = "JObj [(js ''periods'', JArr [])]"
  let ?b2 = "JObj [(js ''periods'', JArr [JObj [], JNull, JArr []])]"
  have "POST ?ra \<lparr> request_json = Inr ?b1 \<rparr> =
          ([], Inr \<lparr> status = 400,
                     json_body = ErrorBody (js ''No financial periods supplied.'') \<rparr>)"
    using POST_empty_input_or_success [of "\<lparr> request_json = Inr ?b1 \<rparr>" ?b1 "JArr []" ?ra]
    by (simp add: getMember_def normalizePeriods_map)
  moreover have "snd (POST ?ra \<lparr> request_json = Inr ?b2 \<rparr>) =
          Inr \<lparr> status = 200, json_body = DataBody (2::nat) \<rparr>"
    using POST_empty_input_or_success [of "\<lparr> request_json = Inr ?b2 \<rparr>" ?b2 "JArr [JObj [], JNull, JArr []]" ?ra]
    by (simp add: getMember_def normalizePeriods_map isObject_def)
  ultimately show ?thesis
    by (simp only: simp_thms)
qed

text \<open>
  Claim C3. The handler always returns a response and never an exception. Whenever
  the \<^verbatim>\<open>try\<close> block throws, the response has status 500 and the fixed body
  \<^verbatim>\<open>{error: "Unable to evaluate financials."}\<close>, which does not depend on the
  exception; the exception goes to the console only. This covers a body that fails to
  parse and an engine that throws.
\<close>

theorem POST_never_throws:
  "(\<exists>evs response. POST ra request = (evs, Inr response))
   \<and> (\<forall>evs e. POST_try ra request = (evs, Inl e) \<longrightarrow>
         POST ra request =
           (evs @ [ConsoleError (js ''Analysis error'') e],
            Inr \<lparr> status = 500,
                   json_body = ErrorBody (js ''Unable to evaluate financials.'') \<rparr>))
   \<and> (\<forall>e. request_json request = Inl e \<longrightarrow>
         snd (POST ra request) =
           Inr \<lparr> status = 500, json_body = ErrorBody (js ''Unable to evaluate financials.'') \<rparr>)
   \<and> (\<forall>body rawPeriods e.
         request_json request = Inr body
         \<and> getMember body (js ''periods'') = Inr rawPeriods
         \<and> normalizePeriods rawPeriods \<noteq> []
         \<and> ra (normalizePeriods rawPeriods)
               (normalizeAssumptions (getProp body (js ''assumptions''))) = Inl e \<longrightarrow>
         snd (POST ra request) =
           Inr \<lparr> status = 500, json_body = ErrorBody (js ''Unable to evaluate financials.'') \<rparr>)"
proof (intro conjI allI impI)
  show "\<exists>evs response. POST ra request = (evs, Inr response)"
  proof (cases "POST_try ra request")
    case (Pair evs res)
    then show ?thesis
      by (cases res) (simp_all add: POST_def)
  qed
next
  fix evs e
  assume "POST_try ra request = (evs, Inl e)"
  then show "POST ra request =
           (evs @ [ConsoleError (js ''Analysis error'') e],
            Inr \<lparr> status = 500,
                   json_body = ErrorBody (js ''Unable to evaluate financials.'') \<rparr>)"
    by (rule POST_of_try_Inl)
next
  fix e
  assume "request_json request = Inl e"
  then have "POST_try ra request = ([], Inl e)"
    by (simp add: POST_try_def)
  then show "snd (POST ra request) =
           Inr \<lparr> status = 500, json_body = ErrorBody (js ''Unable to evaluate financials.'') \<rparr>"
    by (simp add: POST_of_try_Inl del: list.map)
next
  fix body rawPeriods e
  assume a: "request_json request = Inr body
         \<and> getMember body (js ''periods'') = Inr rawPeriods
         \<and> normalizePeriods rawPeriods \<noteq> []
         \<and> ra (normalizePeriods rawPeriods)
               (normalizeAssumptions (getProp body (js ''assumptions''))) = Inl e"
  then have "POST_try ra request =
      ([RunAnalysis (normalizePeriods rawPeriods)
          (normalizeAssumptions (getProp body (js ''assumptions'')))], Inl e)"
    using POST_try_steps [of request body rawPeriods ra] by (simp add: Let_def del: list.map)
  then show "snd (POST ra request) =
           Inr \<lparr> status = 500, json_body = ErrorBody (js ''Unable to evaluate financials.'') \<rparr>"
    by (simp add: POST_of_try_Inl del: list.map)
qed

theorem POST_never_throws_witness:
  "snd (POST (\<lambda>ps a. (Inl (OtherError ''engine failure'') :: exn + nat))
          \<lparr> request_json = Inl (SyntaxError ''Unexpected token'') \<rparr>) =
     Inr \<lparr> status = 500, json_body = ErrorBody (js ''Unable to evaluate financials.'') \<rparr>
   \<and> snd (POST (\<lambda>ps a. (Inl (OtherError ''engine failure'') :: exn + nat))
            \<lparr> request_json = Inr (JObj [(js ''periods'', JArr [JObj []])]) \<rparr>) =
       Inr \<lparr> status = 500, json_body = ErrorBody (js ''Unable to evaluate financials.'') \<rparr>
   \<and> POST (\<lambda>ps a. (Inl (OtherError ''engine failure'') :: exn + nat))
        \<lparr> request_json = Inr JNull \<rparr> =
       ([ConsoleError (js ''Analysis error'')
           (TypeError ''Cannot read properties of null or undefined'')],
        Inr \<lparr> status = 500, json_body = ErrorBody (js ''Unable to evaluate financials.'') \<rparr>)"
proof -
  let ?ra = "\<lambda>(ps::FinancialPeriod list) (a::ScenarioAssumptions).
               (Inl (OtherError ''engine failure'') :: exn + nat)"
  let ?body = "JObj [(js ''periods'', JArr [JObj []])]"
  have "snd (POST ?ra \<lparr> request_json = Inl (SyntaxError ''Unexpected token'') \<rparr>) =
          Inr \<lparr> status = 500, json_body = ErrorBody (js ''Unable to evaluate financials.'') \<rparr>"
    using POST_never_throws [of ?ra "\<lparr> request_json = Inl (SyntaxError ''Unexpected token'') \<rparr>",
        THEN conjunct2, THEN conjunct2, THEN conjunct1, rule_format,
        of "SyntaxError ''Unexpected token''"]
    by simp
  moreover have "snd (POST ?ra \<lparr> request_json = Inr ?body \<rparr>) =
          Inr \<lparr> status = 500, json_body = ErrorBody (js ''Unable to evaluate financials.'') \<rparr>"
    using POST_never_throws [of ?ra "\<lparr> request_json = Inr ?body \<rparr>",
        THEN conjunct2, THEN conjunct2, THEN conjunct2, rule_format,
        of ?body "JArr [JObj []]" "OtherError ''engine failure''"]
    by (simp add: getMember_def normalizePeriods_map isObject_def)
  moreover have "POST ?ra \<lparr> request_json = Inr JNull \<rparr> =
       ([ConsoleError (js ''Analysis error'')
           (TypeError ''Cannot read properties of null or undefined'')],
        Inr \<lparr> status = 500, json_body = ErrorBody (js ''Unable to evaluate financials.'') \<rparr>)"
    using POST_never_throws [of ?ra "\<lparr> request_json = Inr JNull \<rparr>",
        THEN conjunct2, THEN conjunct1, rule_format,
        of "[]" "TypeError ''Cannot read properties of null or undefined''"]
    by (simp add: POST_try_def getMember_def)
  ultimately show ?thesis
    by (simp only: simp_thms)
qed

text \<open>
  Claim C9. An entry of the raw array that is null or not an object leaves no trace in
  the result of \<open>normalizePeriods\<close>; a raw value that is not an array gives the empty
  list. Hence a request whose \<^verbatim>\<open>periods\<close> member is a non-empty array without any
  object entry is answered with status 400 and the empty-input error.
\<close>

theorem normalizePeriods_drops_non_objects:
  "(\<forall>pre row post. \<not> isObject row \<longrightarrow>
      normalizePeriods (JArr (pre @ row # post)) = normalizePeriods (JArr (pre @ post)))
   \<and> (\<not> Array_isArray raw \<longrightarrow> normalizePeriods raw = [])
   \<and> (\<forall>body rows.
         request_json request = Inr body
         \<and> getMember body (js ''periods'') = Inr (JArr rows)
         \<and> rows \<noteq> [] \<and> (\<forall>row\<in>set rows. \<not> isObject row) \<longrightarrow>
         POST ra request =
           ([], Inr \<lparr> status = 400,
                      json_body = ErrorBody (js ''No financial periods supplied.'') \<rparr>))"
proof (intro conjI allI impI)
  fix pre row post
  assume "\<not> isObject row"
  then show "normalizePeriods (JArr (pre @ row # post)) = normalizePeriods (JArr (pre @ post))"
    by (simp add: normalizePeriods_map)
next
  assume "\<not> Array_isArray raw"
  then show "normalizePeriods raw = []"
    by (rule normalizePeriods_not_array)
next
  fix body rows
  assume a: "request_json request = Inr body
         \<and> getMember body (js ''periods'') = Inr (JArr rows)
         \<and> rows \<noteq> [] \<and> (\<forall>row\<in>set rows. \<not> isObject row)"
  then have "normalizePeriods (JArr rows) = []"
    by (simp add: normalizePeriods_no_objects del: list.map)
  with a POST_try_steps [of request body "JArr rows" ra]
  have "POST_try ra request =
          ([], Inr \<lparr> status = 400,
                     json_body = ErrorBody (js ''No financial periods supplied.'') \<rparr>)"
    by (simp del: list.map)
  then show "POST ra request =
          ([], Inr \<lparr> status = 400,
                     json_body = ErrorBody (js ''No financial periods supplied.'') \<rparr>)"
    by (rule POST_of_try_Inr)
qed

theorem normalizePeriods_drops_non_objects_witness:
  "normalizePeriods (JArr [JObj [], JNull]) = normalizePeriods (JArr [JObj []])
   \<and> normalizePeriods (JStr (js ''periods'')) = []
   \<and> POST (\<lambda>ps a. Inr (length ps))
        \<lparr> request_json =
            Inr (JObj [(js ''periods'', JArr [JNull, JNum (Finite 5), JStr (js ''x'')])]) \<rparr> =
       ([], Inr \<lparr> status = 400,
                  json_body = ErrorBody (js ''No financial periods supplied.'') \<rparr>)"
proof -
  let ?ra = "\<lambda>(ps::FinancialPeriod list) (a::ScenarioAssumptions). (Inr (length ps) :: exn + nat)"
  let ?rows = "[JNull, JNum (Finite 5), JStr (js ''x'')]"
  let ?body = "JObj [(js ''periods'', JArr ?rows)]"
  let ?request = "\<lparr> request_json = Inr ?body \<rparr>"
  note c = normalizePeriods_drops_non_objects [of "JStr (js ''periods'')" ?request ?ra]
  have "normalizePeriods (JArr [JObj [], JNull]) = normalizePeriods (JArr [JObj []])"
    using c [THEN conjunct1, rule_format, of JNull "[JObj []]" "[]"]
    by (simp add: isObject_def)
  moreover have "normalizePeriods (JStr (js ''periods'')) = []"
    using c [THEN conjunct2, THEN conjunct1] by simp
  moreover have "POST ?ra ?request =
       ([], Inr \<lparr> status = 400,
                  json_body = ErrorBody (js ''No financial periods supplied.'') \<rparr>)"
    using c [THEN conjunct2, THEN conjunct2, rule_format, of ?body ?rows]
    by (simp add: getMember_def isObject_def)
  ultimately show ?thesis
    by (simp only: simp_thms)
qed

subsection \<open>The engine\<close>

lemma clamp_range: "lo \<le> hi \<Longrightarrow> clamp lo hi x \<in> {lo..hi}"
  by (simp add: clamp_def)

lemma linearScore_bounds: "0 \<le> linearScore bad good x \<and> linearScore bad good x \<le> 100"
  using clamp_range [of 0 100] by (simp add: linearScore_def)

text \<open>
  Claim C6. For a non-empty list of sanitized periods and sanitized assumptions, the
  result of \<open>runAnalysis\<close> has exactly 3 scenario entries, exactly 3 recommendations
  and at most 5 risk signals.
\<close>

theorem runAnalysis_shape:
  assumes "ps \<noteq> []" and "list_all sanitizedPeriod ps" and "sanitizedAssumptions a"
  shows "length (scenario (runAnalysis tpl ps a)) = 3
         \<and> length (recommendations (runAnalysis tpl ps a)) = 3
         \<and> length (riskSignals (runAnalysis tpl ps a)) \<le> 5"
  by (simp add: runAnalysis_def Let_def projectScenario_def composeRecommendations_def
      detectRiskSignals_def)

theorem runAnalysis_shape_witness:
  "length (scenario (runAnalysis
      \<lparr> narrativeTemplate = (\<lambda>t m. []),
        catalog = (\<lambda>c. \<lparr> title = [], highlight = [], bullets = [] \<rparr>) \<rparr>
      (normalizePeriods (JArr [JObj []])) (normalizeAssumptions JNull))) = 3
   \<and> length (recommendations (runAnalysis
      \<lparr> narrativeTemplate = (\<lambda>t m. []),
        catalog = (\<lambda>c. \<lparr> title = [], highlight = [], bullets = [] \<rparr>) \<rparr>
      (normalizePeriods (JArr [JObj []])) (normalizeAssumptions JNull))) = 3
   \<and> length (riskSignals (runAnalysis
      \<lparr> narrativeTemplate = (\<lambda>t m. []),
        catalog = (\<lambda>c. \<lparr> title = [], highlight = [], bullets = [] \<rparr>) \<rparr>
      (normalizePeriods (JArr [JObj []])) (normalizeAssumptions JNull))) \<le> 5"
proof -
  have "normalizePeriods (JArr [JObj []]) \<noteq> []"
    by (simp add: normalizePeriods_map isObject_def)
  then show ?thesis
    using contract_periods contract_assumptions by (rule runAnalysis_shape)
qed

text \<open>
  Claim C7. For a non-empty list of sanitized periods and sanitized assumptions, each
  of the five health scores of the result of \<open>runAnalysis\<close> (overall, growth,
  profitability, liquidity, efficiency) lies between 0 and 100.
\<close>

theorem runAnalysis_healthScores_bounded:
  assumes "ps \<noteq> []" and "list_all sanitizedPeriod ps" and "sanitizedAssumptions a"
  shows "list_all (\<lambda>s. 0 \<le> s \<and> s \<le> 100)
           [overall (healthScores (runAnalysis tpl ps a)),
            growth (healthScores (runAnalysis tpl ps a)),
            profitability (healthScores (runAnalysis tpl ps a)),
            liquidity (healthScores (runAnalysis tpl ps a)),
            efficiency (healthScores (runAnalysis tpl ps a))]"
proof -
  have "0 \<le> clamp 0 100 x \<and> clamp 0 100 x \<le> 100" for x
    using clamp_range [of 0 100 x] by simp
  then show ?thesis
    by (simp add: runAnalysis_def computeHealthScores_def Let_def linearScore_bounds)
qed

theorem runAnalysis_healthScores_bounded_witness:
  "list_all (\<lambda>s. 0 \<le> s \<and> s \<le> 100)
     [overall (healthScores (runAnalysis
        \<lparr> narrativeTemplate = (\<lambda>t m. []),
          catalog = (\<lambda>c. \<lparr> title = [], highlight = [], bullets = [] \<rparr>) \<rparr>
        (normalizePeriods (JArr [JObj []]))
        (normalizeAssumptions (JObj [(js ''revenueGrowth'', JNum (Finite 20))])))),
      growth (healthScores (runAnalysis
        \<lparr> narrativeTemplate = (\<lambda>t m. []),
          catalog = (\<lambda>c. \<lparr> title = [], highlight = [], bullets = [] \<rparr>) \<rparr>
        (normalizePeriods (JArr [JObj []]))
        (normalizeAssumptions (JObj [(js ''revenueGrowth'', JNum (Finite 20))])))),
      profitability (healthScores (runAnalysis
        \<lparr> narrativeTemplate = (\<lambda>t m. []),
          catalog = (\<lambda>c. \<lparr> title = [], highlight = [], bullets = [] \<rparr>) \<rparr>
        (normalizePeriods (JArr [JObj []]))
        (normalizeAssumptions (JObj [(js ''revenueGrowth'', JNum (Finite 20))])))),
      liquidity (healthScores (runAnalysis
        \<lparr> narrativeTemplate = (\<lambda>t m. []),
          catalog = (\<lambda>c. \<lparr> title = [], highlight = [], bullets = [] \<rparr>) \<rparr>
        (normalizePeriods (JArr [JObj []]))
        (normalizeAssumptions (JObj [(js ''revenueGrowth'', JNum (Finite 20))])))),
      efficiency (healthScores (runAnalysis
        \<lparr> narrativeTemplate = (\<lambda>t m. []),
          catalog = (\<lambda>c. \<lparr> title = [], highlight = [], bullets = [] \<rparr>) \<rparr>
        (normalizePeriods (JArr [JObj []]))
        (normalizeAssumptions (JObj [(js ''revenueGrowth'', JNum (Finite 20))]))))]"
proof -
  have "normalizePeriods (JArr [JObj []]) \<noteq> []"
    by (simp add: normalizePeriods_map isObject_def)
  then show ?thesis
    using contract_periods contract_assumptions by (rule runAnalysis_healthScores_bounded)
qed

end
